theory Spec2Isabelle
  imports Complex_Main
begin

section \<open>Tensors of the numeric library\<close>

text \<open>
  The program (\<^verbatim>\<open>src/skipgram.py\<close>) is written against a tensor library.  Tensor entries
  are modelled as real numbers: rounding of the machine floats is outside this model.
  A tensor carries its shape next to its entries, because a nested list alone forgets
  the trailing sizes of a tensor with an empty dimension.  The ranks are the ones the
  docstrings of the source declare.  The memory of the machine is not modelled, except
  in the sampling call, whose result has the size that the caller asks for.
\<close>

type_synonym tensor1 = "real list"

datatype tensor2 = Tensor2 (dim0: nat) (dim1: nat) (rows: "real list list")

datatype tensor3 = Tensor3 (size0: nat) (size1: nat) (size2: nat) (mats: "real list list list")

text \<open>A value of mean(): the mean of no element is the library's not-a-number.\<close>

datatype scalar = Nan | Num real

text \<open>
  What the library raises in the calls used here: tensors whose shapes do not fit, an
  index outside a table, an integer argument outside the 64-bit integers, arguments the
  sampling refuses, and a result that cannot be allocated.
\<close>

datatype error = ShapeMismatch | IndexOutOfRange | IntOverflow | InvalidSampling | OutOfMemory

definition has_shape2 :: "tensor2 \<Rightarrow> nat \<Rightarrow> nat \<Rightarrow> bool" where
  "has_shape2 t r c \<longleftrightarrow>
     dim0 t = r \<and> dim1 t = c \<and> length (rows t) = r \<and> list_all (\<lambda>x. length x = c) (rows t)"

definition has_shape3 :: "tensor3 \<Rightarrow> nat \<Rightarrow> nat \<Rightarrow> nat \<Rightarrow> bool" where
  "has_shape3 t b r c \<longleftrightarrow>
     size0 t = b \<and> size1 t = r \<and> size2 t = c \<and> length (mats t) = b \<and>
     list_all (\<lambda>m. length m = r \<and> list_all (\<lambda>x. length x = c) m) (mats t)"

subsection \<open>Elementwise operations\<close>

definition sigmoid :: "real \<Rightarrow> real" where
  "sigmoid x = 1 / (1 + exp (- x))"

definition pointwise2 :: "(real \<Rightarrow> real) \<Rightarrow> tensor2 \<Rightarrow> tensor2" where
  "pointwise2 f t = Tensor2 (dim0 t) (dim1 t) (map (map f) (rows t))"

definition torch_sigmoid1 :: "tensor1 \<Rightarrow> tensor1" where
  "torch_sigmoid1 t = map sigmoid t"

definition torch_sigmoid2 :: "tensor2 \<Rightarrow> tensor2" where
  "torch_sigmoid2 t = pointwise2 sigmoid t"

definition torch_log1 :: "tensor1 \<Rightarrow> tensor1" where
  "torch_log1 t = map ln t"

definition torch_log2 :: "tensor2 \<Rightarrow> tensor2" where
  "torch_log2 t = pointwise2 ln t"

definition add_scalar1 :: "tensor1 \<Rightarrow> real \<Rightarrow> tensor1" where
  "add_scalar1 t c = map (\<lambda>x. x + c) t"

definition add_scalar2 :: "tensor2 \<Rightarrow> real \<Rightarrow> tensor2" where
  "add_scalar2 t c = pointwise2 (\<lambda>x. x + c) t"

definition torch_neg2 :: "tensor2 \<Rightarrow> tensor2" where
  "torch_neg2 t = pointwise2 uminus t"

text \<open>\<^verbatim>\<open>torch.sum(t, dim=1)\<close> of a rank-2 tensor: one sum per row.\<close>

definition torch_sum_dim1 :: "tensor2 \<Rightarrow> tensor1" where
  "torch_sum_dim1 t = map sum_list (rows t)"

subsection \<open>Broadcasting\<close>

text \<open>
  Two sizes are compatible when they are equal or one of them is 1; the size-1 operand
  is then read at index 0 whatever the index asked for.
\<close>

definition broadcast_dim :: "nat \<Rightarrow> nat \<Rightarrow> nat option" where
  "broadcast_dim a b =
     (if a = b then Some a else if a = 1 then Some b else if b = 1 then Some a else None)"

definition entry1 :: "tensor1 \<Rightarrow> nat \<Rightarrow> real" where
  "entry1 t i = t ! (if length t = 1 then 0 else i)"

definition entry2 :: "tensor2 \<Rightarrow> nat \<Rightarrow> nat \<Rightarrow> real" where
  "entry2 t i j = rows t ! (if dim0 t = 1 then 0 else i) ! (if dim1 t = 1 then 0 else j)"

text \<open>\<^verbatim>\<open>x * y\<close> on rank-2 tensors.\<close>

definition torch_mul2 :: "tensor2 \<Rightarrow> tensor2 \<Rightarrow> error + tensor2" where
  "torch_mul2 x y =
     (case (broadcast_dim (dim0 x) (dim0 y), broadcast_dim (dim1 x) (dim1 y)) of
        (Some r, Some c) \<Rightarrow>
          Inr (Tensor2 r c (map (\<lambda>i. map (\<lambda>j. entry2 x i j * entry2 y i j) [0..<c]) [0..<r]))
      | _ \<Rightarrow> Inl ShapeMismatch)"

text \<open>\<^verbatim>\<open>x + y\<close> on rank-1 tensors.\<close>

definition torch_add1 :: "tensor1 \<Rightarrow> tensor1 \<Rightarrow> error + tensor1" where
  "torch_add1 x y =
     (case broadcast_dim (length x) (length y) of
        Some n \<Rightarrow> Inr (map (\<lambda>i. entry1 x i + entry1 y i) [0..<n])
      | None \<Rightarrow> Inl ShapeMismatch)"

subsection \<open>Batched matrix product, unsqueeze, squeeze, mean\<close>

text \<open>\<^verbatim>\<open>t.unsqueeze(2)\<close> of a rank-2 tensor: shape (r, c) becomes (r, c, 1).\<close>

definition unsqueeze2 :: "tensor2 \<Rightarrow> tensor3" where
  "unsqueeze2 t = Tensor3 (dim0 t) (dim1 t) 1 (map (map (\<lambda>x. [x])) (rows t))"

text \<open>
  \<^verbatim>\<open>torch.bmm(a, b)\<close>: shapes (n, r, m) and (n, m, p) give (n, r, p); nothing is
  broadcast, any other pair of shapes is refused.
\<close>

definition torch_bmm :: "tensor3 \<Rightarrow> tensor3 \<Rightarrow> error + tensor3" where
  "torch_bmm a b =
     (if size0 a \<noteq> size0 b \<or> size2 a \<noteq> size1 b then Inl ShapeMismatch
      else Inr (Tensor3 (size0 a) (size1 a) (size2 b)
        (map (\<lambda>i. map (\<lambda>j. map (\<lambda>k.
            sum_list (map (\<lambda>e. mats a ! i ! j ! e * mats b ! i ! e ! k) [0..<size2 a]))
          [0..<size2 b]) [0..<size1 a]) [0..<size0 a])))"

text \<open>
  \<^verbatim>\<open>t.squeeze(2)\<close> where the last size of \<open>t\<close> is 1, which is the only use the source
  makes of it: the operand is a product with an \<^verbatim>\<open>unsqueeze(2)\<close> tensor, whose last
  size is 1 (lemma \<open>bmm_unsqueeze2_size2\<close>).  Shape (n, r, 1) becomes (n, r).
\<close>

definition squeeze2 :: "tensor3 \<Rightarrow> tensor2" where
  "squeeze2 t = Tensor2 (size0 t) (size1 t) (map (map hd) (mats t))"

text \<open>\<^verbatim>\<open>torch.mean(t)\<close> of a rank-1 tensor, and the negation of its result.\<close>

definition torch_mean :: "tensor1 \<Rightarrow> scalar" where
  "torch_mean t = (if t = [] then Nan else Num (sum_list t / real (length t)))"

fun neg_scalar :: "scalar \<Rightarrow> scalar" where
  "neg_scalar Nan = Nan"
| "neg_scalar (Num x) = Num (- x)"

text \<open>The literal \<^verbatim>\<open>1e-10\<close> of lines 139 and 140.\<close>

definition eps :: real where
  "eps = 1 / 10 ^ 10"

section \<open>SkipGramNeg\<close>

text \<open>
  A tensor of word indices has any rank: an entry, or a list of tensors of one rank
  less.  The same type holds the looked-up embedding rows, one row for each index.
\<close>

datatype 'a tensor = Entry 'a | Axis "'a tensor list"

text \<open>The entries in row-major order, the order \<^verbatim>\<open>view\<close> reads a contiguous tensor in.\<close>

fun entries :: "'a tensor \<Rightarrow> 'a list" where
  "entries (Entry x) = [x]"
| "entries (Axis ts) = concat (map entries ts)"

text \<open>
  The attributes \<^verbatim>\<open>__init__\<close> sets (lines 29 to 35).  The sizes are natural numbers: the
  constructor of an embedding table refuses a negative size.  \<open>in_embed\<close> and \<open>out_embed\<close>
  are the weight tables of the two embedding layers.
\<close>

record skipgram =
  n_vocab :: nat
  n_embed :: nat
  noise_dist :: "tensor1 option"
  in_embed :: tensor2
  out_embed :: tensor2

text \<open>What \<^verbatim>\<open>__init__\<close> establishes: both tables have shape (n_vocab, n_embed).\<close>

definition wf_model :: "skipgram \<Rightarrow> bool" where
  "wf_model m \<longleftrightarrow>
     has_shape2 (in_embed m) (n_vocab m) (n_embed m) \<and>
     has_shape2 (out_embed m) (n_vocab m) (n_embed m)"

text \<open>
  What a sampling call whose arguments the library accepts comes to.  It is decided by
  the hidden state of the library and not by the program: either the result cannot be
  allocated, or the draws select categories, the \<open>k\<close>-th draw the category \<open>f k\<close>.
  Nothing is said here on how the generator arrives at \<open>f\<close>; the law it follows is
  \<open>category_probability\<close> below.
\<close>

datatype outcome = Exhausted | Selects "nat \<Rightarrow> nat"

text \<open>
  The state a call runs in: the model object, and the library's random generator, given
  as the outcomes of the sampling calls to come.
\<close>

record program =
  model :: skipgram
  generator :: "nat \<Rightarrow> outcome"

subsection \<open>Library calls of the model\<close>

text \<open>
  Calling an embedding layer on a tensor of indices: every index is replaced by the row
  of the weight table it names; an index outside the table is refused.
\<close>

definition embedding :: "tensor2 \<Rightarrow> int tensor \<Rightarrow> error + real list tensor" where
  "embedding w idx =
     (if \<forall>i \<in> set_tensor idx. 0 \<le> i \<and> i < int (dim0 w)
      then Inr (map_tensor (\<lambda>i. rows w ! nat i) idx)
      else Inl IndexOutOfRange)"

definition torch_ones :: "nat \<Rightarrow> tensor1" where
  "torch_ones n = replicate n 1"

text \<open>The weight tensors the sampling accepts.\<close>

definition valid_weights :: "tensor1 \<Rightarrow> bool" where
  "valid_weights w \<longleftrightarrow> length w \<le> 2 ^ 24 \<and> list_all (\<lambda>x. 0 \<le> x) w \<and> 0 < sum_list w"

text \<open>
  \<^verbatim>\<open>torch.multinomial(weights, n, replacement=True)\<close> on a rank-1 weight tensor.  The
  sample count is a Python integer and must fit a 64-bit integer.  The library then
  refuses a count that is not positive, more than \<open>2^24\<close> categories, a negative weight
  and a total weight that is not positive.  Otherwise the call comes to the next outcome
  of the generator: \<open>n\<close> indices, drawn with replacement (the count is not bounded by the
  number of categories and an index may recur), or a failed allocation.
\<close>

definition torch_multinomial ::
  "tensor1 \<Rightarrow> int \<Rightarrow> (nat \<Rightarrow> outcome) \<Rightarrow> (error + nat list) \<times> (nat \<Rightarrow> outcome)" where
  "torch_multinomial weights n g =
     (if n < - (2 ^ 63) \<or> 2 ^ 63 \<le> n then (Inl IntOverflow, g)
      else if n \<le> 0 \<or> \<not> valid_weights weights then (Inl InvalidSampling, g)
      else (case g 0 of
              Exhausted \<Rightarrow> Inl OutOfMemory
            | Selects f \<Rightarrow> Inr (map f [0..<nat n]),
            \<lambda>c. g (Suc c)))"


text \<open>
  \<^verbatim>\<open>t.view(b, s, e)\<close> as line 90 uses it.  The sizes must account for every entry of
  \<open>t\<close>; the result reads the entries of \<open>t\<close> in row-major order.  A negative size is
  refused: line 90 is reached only when \<^verbatim>\<open>batch_size * n_samples\<close> is positive, so a
  negative \<^verbatim>\<open>batch_size\<close> comes with a negative \<^verbatim>\<open>n_samples\<close>, and the library infers at
  most one size, written -1.
\<close>

definition view3 :: "int \<Rightarrow> int \<Rightarrow> nat \<Rightarrow> real list tensor \<Rightarrow> error + tensor3" where
  "view3 b s e t =
     (let d = concat (entries t) in
      if b < 0 \<or> s < 0 \<or> nat b * nat s * e \<noteq> length d then Inl ShapeMismatch
      else Inr (Tensor3 (nat b) (nat s) e
        (map (\<lambda>i. map (\<lambda>j. map (\<lambda>k. d ! ((i * nat s + j) * e + k)) [0..<e])
          [0..<nat s]) [0..<nat b])))"

subsection \<open>The methods\<close>

text \<open>Lines 51 and 52.\<close>

definition forward_input :: "int tensor \<Rightarrow> program \<Rightarrow> (error + real list tensor) \<times> program" where
  "forward_input input_words st = (embedding (in_embed (model st)) input_words, st)"

text \<open>Lines 64 and 65.\<close>

definition forward_output :: "int tensor \<Rightarrow> program \<Rightarrow> (error + real list tensor) \<times> program" where
  "forward_output output_words st = (embedding (out_embed (model st)) output_words, st)"

text \<open>Lines 77 to 81: the local \<^verbatim>\<open>noise_dist\<close> of \<^verbatim>\<open>forward_noise\<close>.\<close>

definition sampling_weights :: "skipgram \<Rightarrow> tensor1" where
  "sampling_weights m =
     (case noise_dist m of
        None \<Rightarrow> torch_ones (n_vocab m)
      | Some d \<Rightarrow> d)"

text \<open>
  Lines 84 to 87: the local \<^verbatim>\<open>noise_words\<close>.  Moving the indices to the device of the
  table does not change them.
\<close>

definition noise_words :: "int \<Rightarrow> int \<Rightarrow> program \<Rightarrow> (error + nat list) \<times> program" where
  "noise_words batch_size n_samples st =
     (case torch_multinomial (sampling_weights (model st)) (batch_size * n_samples) (generator st) of
        (r, g) \<Rightarrow> (r, st\<lparr>generator := g\<rparr>))"

text \<open>Lines 77 to 92.\<close>

definition forward_noise :: "int \<Rightarrow> int \<Rightarrow> program \<Rightarrow> (error + tensor3) \<times> program" where
  "forward_noise batch_size n_samples st =
     (case noise_words batch_size n_samples st of
        (Inl e, st') \<Rightarrow> (Inl e, st')
      | (Inr ws, st') \<Rightarrow>
          (case embedding (out_embed (model st')) (Axis (map (\<lambda>i. Entry (int i)) ws)) of
             Inl e \<Rightarrow> (Inl e, st')
           | Inr v \<Rightarrow> (view3 batch_size n_samples (n_embed (model st')) v, st')))"

text \<open>
  The tensor of shape (b, s, e) whose slice \<open>(i, j)\<close> is the row of the table \<open>w\<close> that
  index number \<open>i * s + j\<close> of \<open>ws\<close> names: the rows of the indices \<open>ws\<close>, laid out in
  the order of \<open>ws\<close>.
\<close>

definition gathered :: "tensor2 \<Rightarrow> nat \<Rightarrow> nat \<Rightarrow> nat list \<Rightarrow> tensor3" where
  "gathered w b s ws =
     Tensor3 b s (dim1 w) (map (\<lambda>i. map (\<lambda>j. rows w ! (ws ! (i * s + j))) [0..<s]) [0..<b])"

section \<open>NegativeSamplingLoss.forward\<close>

text \<open>Line 133: \<^verbatim>\<open>pos_scores = torch.sum(input_vectors * output_vectors, dim=1)\<close>.\<close>

definition pos_scores :: "tensor2 \<Rightarrow> tensor2 \<Rightarrow> error + tensor1" where
  "pos_scores input_vectors output_vectors =
     (case torch_mul2 input_vectors output_vectors of
        Inl e \<Rightarrow> Inl e
      | Inr p \<Rightarrow> Inr (torch_sum_dim1 p))"

text \<open>Line 136:
  \<^verbatim>\<open>neg_scores = torch.bmm(noise_vectors, input_vectors.unsqueeze(2)).squeeze(2)\<close>.\<close>

definition neg_scores :: "tensor3 \<Rightarrow> tensor2 \<Rightarrow> error + tensor2" where
  "neg_scores noise_vectors input_vectors =
     (case torch_bmm noise_vectors (unsqueeze2 input_vectors) of
        Inl e \<Rightarrow> Inl e
      | Inr q \<Rightarrow> Inr (squeeze2 q))"

text \<open>Line 139: \<^verbatim>\<open>pos_loss = torch.log(torch.sigmoid(pos_scores) + 1e-10)\<close>,
  with \<open>ps\<close> for the value of \<^verbatim>\<open>pos_scores\<close>.\<close>

definition pos_loss :: "tensor1 \<Rightarrow> tensor1" where
  "pos_loss ps = torch_log1 (add_scalar1 (torch_sigmoid1 ps) eps)"

text \<open>Line 140:
  \<^verbatim>\<open>neg_loss = torch.sum(torch.log(torch.sigmoid(-neg_scores) + 1e-10), dim=1)\<close>,
  with \<open>ns\<close> for the value of \<^verbatim>\<open>neg_scores\<close>.\<close>

definition neg_loss :: "tensor2 \<Rightarrow> tensor1" where
  "neg_loss ns =
     torch_sum_dim1 (torch_log2 (add_scalar2 (torch_sigmoid2 (torch_neg2 ns)) eps))"

text \<open>
  Lines 133 to 143, in the order the source evaluates them; the first failing library
  call ends the computation.  Line 143: \<^verbatim>\<open>return -torch.mean(pos_loss + neg_loss)\<close>.
\<close>

definition loss :: "tensor2 \<Rightarrow> tensor2 \<Rightarrow> tensor3 \<Rightarrow> error + scalar" where
  "loss input_vectors output_vectors noise_vectors =
     (case pos_scores input_vectors output_vectors of
        Inl e \<Rightarrow> Inl e
      | Inr ps \<Rightarrow>
          (case neg_scores noise_vectors input_vectors of
             Inl e \<Rightarrow> Inl e
           | Inr ns \<Rightarrow>
               (case torch_add1 (pos_loss ps) (neg_loss ns) of
                  Inl e \<Rightarrow> Inl e
                | Inr t \<Rightarrow> Inr (neg_scalar (torch_mean t)))))"

text \<open>
  \<^verbatim>\<open>NegativeSamplingLoss.forward\<close>: the module has no attribute of its own, and the body
  reads neither the model nor the generator.
\<close>

definition forward :: "tensor2 \<Rightarrow> tensor2 \<Rightarrow> tensor3 \<Rightarrow> program \<Rightarrow> (error + scalar) \<times> program" where
  "forward input_vectors output_vectors noise_vectors st =
     (loss input_vectors output_vectors noise_vectors, st)"

subsection \<open>The closed form of the specification\<close>

text \<open>
  The loss in the words of the specification: the negative of the mean over the batch of
  \<open>log (sigmoid (i\<^sub>b \<cdot> o\<^sub>b) + 1e-10)\<close> plus the sum over the samples \<open>s\<close> of
  \<open>log (sigmoid (- (n\<^sub>b\<^sub>s \<cdot> i\<^sub>b)) + 1e-10)\<close>.  The mean over an empty batch is not a number.
\<close>

definition dot :: "real list \<Rightarrow> real list \<Rightarrow> real" where
  "dot x y = (\<Sum>e<length x. x ! e * y ! e)"

definition closed_form_loss ::
  "nat \<Rightarrow> nat \<Rightarrow> real list list \<Rightarrow> real list list \<Rightarrow> real list list list \<Rightarrow> scalar" where
  "closed_form_loss B S iv ov nv =
     (if B = 0 then Nan
      else Num (- ((\<Sum>b<B. ln (sigmoid (dot (iv ! b) (ov ! b)) + eps) +
                        (\<Sum>s<S. ln (sigmoid (- dot (nv ! b ! s) (iv ! b)) + eps))) / real B)))"

section \<open>A concrete model\<close>

text \<open>A three-word vocabulary with embeddings of size 2 and no noise distribution.\<close>

definition example_model :: skipgram where
  "example_model = \<lparr>n_vocab = 3, n_embed = 2, noise_dist = None,
     in_embed = Tensor2 3 2 [[1, 2], [3, 4], [5, 6]],
     out_embed = Tensor2 3 2 [[1, 0], [0, 1], [1, 1]]\<rparr>"

text \<open>Its next sampling call draws category 1 first and category 0 ever after.\<close>

definition example_program :: program where
  "example_program =
     \<lparr>model = example_model, generator = (\<lambda>c. Selects (\<lambda>k. if k = 0 then 1 else 0))\<rparr>"

text \<open>The same model with a noise distribution of weights 1, 2, 1.\<close>

definition weighted_program :: program where
  "weighted_program = example_program\<lparr>model := example_model\<lparr>noise_dist := Some [1, 2, 1]\<rparr>\<rparr>"

text \<open>The same model with a noise distribution without weight.\<close>

definition weightless_program :: program where
  "weightless_program = example_program\<lparr>model := example_model\<lparr>noise_dist := Some [0, 0, 0]\<rparr>\<rparr>"

text \<open>
  The same model with a noise distribution of four weights, one more than the
  vocabulary has words, all of the weight on the last: every draw selects category 3.
\<close>

definition long_program :: program where
  "long_program =
     \<lparr>model = example_model\<lparr>noise_dist := Some [0, 0, 0, 1]\<rparr>,
      generator = (\<lambda>c. Selects (\<lambda>k. 3))\<rparr>"

section \<open>Properties\<close>

lemma sigmoid_pos: "0 < sigmoid x"
  by (simp add: sigmoid_def add_pos_pos)

lemma eps_pos: "0 < eps"
  by (simp add: eps_def)

lemma pos_loss_map: "pos_loss ps = map (\<lambda>x. ln (sigmoid x + eps)) ps"
  by (simp add: pos_loss_def torch_log1_def add_scalar1_def torch_sigmoid1_def)

lemma neg_loss_map:
  "neg_loss ns = map (\<lambda>r. sum_list (map (\<lambda>x. ln (sigmoid (- x) + eps)) r)) (rows ns)"
  by (simp add: neg_loss_def torch_sum_dim1_def torch_log2_def add_scalar2_def
      torch_sigmoid2_def torch_neg2_def pointwise2_def comp_def)

lemma sigmoid_inverse: "1 / sigmoid x = 1 + exp (- x)"
  by (simp add: sigmoid_def)

lemma log_sigmoid_eps_gap:
  "ln (sigmoid x + eps) - ln (sigmoid x) = ln (1 + eps * (1 + exp (- x)))"
proof -
  have s: "0 < sigmoid x" by (rule sigmoid_pos)
  have "ln (sigmoid x + eps) - ln (sigmoid x) = ln ((sigmoid x + eps) / sigmoid x)"
    using s eps_pos by (simp add: ln_div add_pos_pos)
  also have "(sigmoid x + eps) / sigmoid x = 1 + eps * (1 / sigmoid x)"
    using s by (simp add: field_simps)
  finally show ?thesis by (simp only: sigmoid_inverse)
qed

subsection \<open>Shapes and entries\<close>

lemma sum_list_upt: "sum_list (map f [0..<n]) = (\<Sum>i<n. f i)"
  by (simp add: interv_sum_list_conv_sum_set_nat atLeast0LessThan)

lemma has_shape2_row: "has_shape2 t r c \<Longrightarrow> i < r \<Longrightarrow> length (rows t ! i) = c"
  by (simp add: has_shape2_def list_all_length)

lemma has_shape3_row:
  "has_shape3 t b r c \<Longrightarrow> i < b \<Longrightarrow> j < r \<Longrightarrow>
     length (mats t ! i) = r \<and> length (mats t ! i ! j) = c"
  by (simp add: has_shape3_def list_all_length)

lemma entry2_in_range: "i < dim0 t \<Longrightarrow> j < dim1 t \<Longrightarrow> entry2 t i j = rows t ! i ! j"
  by (auto simp: entry2_def)

lemma entry1_in_range: "i < length t \<Longrightarrow> entry1 t i = t ! i"
  by (auto simp: entry1_def)

lemma broadcast_dim_same: "broadcast_dim n n = Some n"
  by (simp add: broadcast_dim_def)

subsection \<open>The library calls on tensors of matching shapes\<close>

lemma torch_mul2_same_shape:
  assumes "has_shape2 x r c" and "has_shape2 y r c"
  shows "torch_mul2 x y =
    Inr (Tensor2 r c (map (\<lambda>i. map (\<lambda>j. rows x ! i ! j * rows y ! i ! j) [0..<c]) [0..<r]))"
proof -
  have d: "dim0 x = r" "dim1 x = c" "dim0 y = r" "dim1 y = c"
    using assms by (simp_all add: has_shape2_def)
  show ?thesis
    by (simp add: torch_mul2_def d broadcast_dim_same entry2_in_range)
qed

lemma torch_add1_same_length:
  "length x = n \<Longrightarrow> length y = n \<Longrightarrow> torch_add1 x y = Inr (map (\<lambda>i. x ! i + y ! i) [0..<n])"
  by (simp add: torch_add1_def broadcast_dim_same entry1_in_range)

lemma bmm_unsqueeze2_size2: "torch_bmm a (unsqueeze2 t) = Inr q \<Longrightarrow> size2 q = 1"
  by (auto simp: torch_bmm_def unsqueeze2_def split: if_splits)

subsection \<open>Scores\<close>

lemma pos_scores_value:
  assumes "has_shape2 x r c" and "has_shape2 y r c"
  shows "pos_scores x y = Inr (map (\<lambda>i. dot (rows x ! i) (rows y ! i)) [0..<r])"
proof -
  have "\<And>i. i < r \<Longrightarrow> (\<Sum>j<c. rows x ! i ! j * rows y ! i ! j) = dot (rows x ! i) (rows y ! i)"
    using has_shape2_row [OF assms(1)] by (simp add: dot_def)
  then show ?thesis
    by (simp add: pos_scores_def torch_mul2_same_shape [OF assms] torch_sum_dim1_def
        comp_def sum_list_upt)
qed

lemma neg_scores_value:
  assumes n: "has_shape3 nv b s c" and x: "has_shape2 x b c"
  shows "neg_scores nv x =
    Inr (Tensor2 b s (map (\<lambda>i. map (\<lambda>j. dot (mats nv ! i ! j) (rows x ! i)) [0..<s]) [0..<b]))"
proof -
  have d: "size0 nv = b" "size1 nv = s" "size2 nv = c" "dim0 x = b" "dim1 x = c"
      "length (rows x) = b"
    using assms by (simp_all add: has_shape3_def has_shape2_def)
  have e: "\<And>i j. i < b \<Longrightarrow> j < s \<Longrightarrow>
      (\<Sum>e<c. mats nv ! i ! j ! e * rows x ! i ! e) = dot (mats nv ! i ! j) (rows x ! i)"
    using has_shape3_row [OF n] by (simp add: dot_def)
  have u: "\<And>i e. i < b \<Longrightarrow> e < c \<Longrightarrow> mats (unsqueeze2 x) ! i ! e ! 0 = rows x ! i ! e"
    using has_shape2_row [OF x] by (simp add: unsqueeze2_def d)
  have sz: "size0 (unsqueeze2 x) = b" "size1 (unsqueeze2 x) = c" "size2 (unsqueeze2 x) = 1"
    by (simp_all add: unsqueeze2_def d)
  show ?thesis
    by (simp add: neg_scores_def torch_bmm_def d sz squeeze2_def comp_def sum_list_upt u e)
qed

subsection \<open>The loss\<close>

lemma loss_closed_form:
  assumes i: "has_shape2 iv B E" and o: "has_shape2 ov B E" and n: "has_shape3 nv B S E"
  shows "loss iv ov nv = Inr (closed_form_loss B S (rows iv) (rows ov) (mats nv))"
proof -
  let ?ps = "map (\<lambda>b. dot (rows iv ! b) (rows ov ! b)) [0..<B]"
  let ?ns = "Tensor2 B S (map (\<lambda>b. map (\<lambda>s. dot (mats nv ! b ! s) (rows iv ! b)) [0..<S]) [0..<B])"
  let ?t = "map (\<lambda>b. ln (sigmoid (dot (rows iv ! b) (rows ov ! b)) + eps) +
                (\<Sum>s<S. ln (sigmoid (- dot (mats nv ! b ! s) (rows iv ! b)) + eps))) [0..<B]"
  have pl: "pos_loss ?ps = map (\<lambda>b. ln (sigmoid (dot (rows iv ! b) (rows ov ! b)) + eps)) [0..<B]"
    by (simp add: pos_loss_map comp_def)
  have nl: "neg_loss ?ns =
      map (\<lambda>b. \<Sum>s<S. ln (sigmoid (- dot (mats nv ! b ! s) (rows iv ! b)) + eps)) [0..<B]"
    by (simp add: neg_loss_map comp_def sum_list_upt)
  have ad: "torch_add1 (pos_loss ?ps) (neg_loss ?ns) = Inr ?t"
    by (simp add: pl nl torch_add1_same_length [where n = B])
  have mn: "neg_scalar (torch_mean ?t) = closed_form_loss B S (rows iv) (rows ov) (mats nv)"
    by (simp add: torch_mean_def closed_form_loss_def sum_list_upt)
  show ?thesis
    by (simp only: loss_def pos_scores_value [OF i o] neg_scores_value [OF n i] ad mn sum.case)
qed

text \<open>
  Claim C1: on input vectors and output vectors of shape (B, E) and noise vectors of
  shape (B, S, E), \<^verbatim>\<open>NegativeSamplingLoss.forward\<close> returns the closed-form loss: the
  negative of the mean over the batch of \<open>log (sigmoid (i\<^sub>b \<cdot> o\<^sub>b) + 1e-10)\<close> plus the sum
  over \<open>s\<close> of \<open>log (sigmoid (- (n\<^sub>b\<^sub>s \<cdot> i\<^sub>b)) + 1e-10)\<close>.
\<close>

theorem forward_closed_form:
  assumes "has_shape2 iv B E" and "has_shape2 ov B E" and "has_shape3 nv B S E"
  shows "fst (forward iv ov nv st) = Inr (closed_form_loss B S (rows iv) (rows ov) (mats nv))"
  using loss_closed_form [OF assms] by (simp add: forward_def)

theorem forward_closed_form_witness:
  "fst (forward (Tensor2 2 2 [[1, 2], [3, 4]]) (Tensor2 2 2 [[1, 0], [0, 1]])
        (Tensor3 2 1 2 [[[1, 1]], [[0, 1]]]) example_program) =
   Inr (Num (- ((ln (sigmoid 1 + eps) + ln (sigmoid (- 3) + eps) +
                 (ln (sigmoid 4 + eps) + ln (sigmoid (- 4) + eps))) / 2)))"
  using forward_closed_form [of "Tensor2 2 2 [[1, 2], [3, 4]]" 2 2 "Tensor2 2 2 [[1, 0], [0, 1]]"
      "Tensor3 2 1 2 [[[1, 1]], [[0, 1]]]" 1 example_program]
  by (simp add: has_shape2_def has_shape3_def closed_form_loss_def dot_def eval_nat_numeral)

text \<open>
  Claim C3: on tensors of those shapes both score computations succeed; for every
  \<open>b < B\<close> the positive score is the dot product of input vector \<open>b\<close> with output vector
  \<open>b\<close> and goes through the sigmoid as it is, and for every \<open>s < S\<close> the negative score is
  the dot product of noise vector \<open>(b, s)\<close> with input vector \<open>b\<close> and goes through the
  sigmoid negated.  The loss is the negated mean of the sums of the two kinds of term.
\<close>

theorem scores_and_signs:
  assumes i: "has_shape2 iv B E" and o: "has_shape2 ov B E" and n: "has_shape3 nv B S E"
  shows "\<exists>ps ns. pos_scores iv ov = Inr ps \<and> neg_scores nv iv = Inr ns \<and>
     length ps = B \<and> has_shape2 ns B S \<and>
     fst (forward iv ov nv st) =
       Inr (neg_scalar (torch_mean (map (\<lambda>b. pos_loss ps ! b + neg_loss ns ! b) [0..<B]))) \<and>
     (\<forall>b<B. ps ! b = dot (rows iv ! b) (rows ov ! b) \<and>
        pos_loss ps ! b = ln (sigmoid (ps ! b) + eps) \<and>
        neg_loss ns ! b = (\<Sum>s<S. ln (sigmoid (- (rows ns ! b ! s)) + eps)) \<and>
        (\<forall>s<S. rows ns ! b ! s = dot (mats nv ! b ! s) (rows iv ! b)))"
proof -
  let ?ps = "map (\<lambda>b. dot (rows iv ! b) (rows ov ! b)) [0..<B]"
  let ?ns = "Tensor2 B S (map (\<lambda>b. map (\<lambda>s. dot (mats nv ! b ! s) (rows iv ! b)) [0..<S]) [0..<B])"
  have p: "pos_scores iv ov = Inr ?ps" by (rule pos_scores_value [OF i o])
  have q: "neg_scores nv iv = Inr ?ns" by (rule neg_scores_value [OF n i])
  have sh: "has_shape2 ?ns B S" by (simp add: has_shape2_def list_all_length)
  have ad: "torch_add1 (pos_loss ?ps) (neg_loss ?ns) =
      Inr (map (\<lambda>b. pos_loss ?ps ! b + neg_loss ?ns ! b) [0..<B])"
    by (rule torch_add1_same_length) (simp_all add: pos_loss_map neg_loss_map)
  have f: "fst (forward iv ov nv st) =
      Inr (neg_scalar (torch_mean (map (\<lambda>b. pos_loss ?ps ! b + neg_loss ?ns ! b) [0..<B])))"
    by (simp only: forward_def fst_conv loss_def p q ad sum.case)
  have e: "\<forall>b<B. ?ps ! b = dot (rows iv ! b) (rows ov ! b) \<and>
        pos_loss ?ps ! b = ln (sigmoid (?ps ! b) + eps) \<and>
        neg_loss ?ns ! b = (\<Sum>s<S. ln (sigmoid (- (rows ?ns ! b ! s)) + eps)) \<and>
        (\<forall>s<S. rows ?ns ! b ! s = dot (mats nv ! b ! s) (rows iv ! b))"
    by (simp add: pos_loss_map neg_loss_map sum_list_upt comp_def)
  have l: "length ?ps = B" by simp
  show ?thesis
    by (rule exI [of _ ?ps], rule exI [of _ ?ns]) (intro conjI p q l sh f e)
qed

theorem scores_and_signs_witness:
  "\<exists>ps ns. pos_scores (Tensor2 2 2 [[1, 2], [3, 4]]) (Tensor2 2 2 [[1, 0], [0, 1]]) = Inr ps \<and>
     neg_scores (Tensor3 2 1 2 [[[1, 1]], [[0, 1]]]) (Tensor2 2 2 [[1, 2], [3, 4]]) = Inr ns \<and>
     ps ! 1 = dot [3, 4] [0, 1] \<and> pos_loss ps ! 1 = ln (sigmoid (ps ! 1) + eps) \<and>
     rows ns ! 1 ! 0 = dot [0, 1] [3, 4] \<and>
     neg_loss ns ! 1 = ln (sigmoid (- (rows ns ! 1 ! 0)) + eps)"
proof -
  have h: "has_shape2 (Tensor2 2 2 [[1, 2], [3, 4]]) 2 2"
      "has_shape2 (Tensor2 2 2 [[1, 0], [0, 1]]) 2 2"
      "has_shape3 (Tensor3 2 1 2 [[[1, 1]], [[0, 1]]]) 2 1 2"
    by (simp_all add: has_shape2_def has_shape3_def)
  from scores_and_signs [OF h, of example_program] obtain ps ns where
    p: "pos_scores (Tensor2 2 2 [[1, 2], [3, 4]]) (Tensor2 2 2 [[1, 0], [0, 1]]) = Inr ps" and
    q: "neg_scores (Tensor3 2 1 2 [[[1, 1]], [[0, 1]]]) (Tensor2 2 2 [[1, 2], [3, 4]]) = Inr ns" and
    a: "\<forall>b<2. ps ! b = dot (rows (Tensor2 2 2 [[1, 2], [3, 4]]) ! b)
               (rows (Tensor2 2 2 [[1, 0], [0, 1]]) ! b) \<and>
        pos_loss ps ! b = ln (sigmoid (ps ! b) + eps) \<and>
        neg_loss ns ! b = (\<Sum>s<1. ln (sigmoid (- (rows ns ! b ! s)) + eps)) \<and>
        (\<forall>s<1. rows ns ! b ! s = dot (mats (Tensor3 2 1 2 [[[1, 1]], [[0, 1]]]) ! b ! s)
               (rows (Tensor2 2 2 [[1, 2], [3, 4]]) ! b))"
    by blast
  from a have "ps ! 1 = dot [3, 4] [0, 1]" "pos_loss ps ! 1 = ln (sigmoid (ps ! 1) + eps)"
      "rows ns ! 1 ! 0 = dot [0, 1] [3, 4]"
      "neg_loss ns ! 1 = ln (sigmoid (- (rows ns ! 1 ! 0)) + eps)"
    by simp_all
  with p q show ?thesis by blast
qed

subsection \<open>Lookup and reshaping\<close>

lemma length_concat_uniform: "list_all (\<lambda>r. length r = c) xs \<Longrightarrow> length (concat xs) = length xs * c"
  by (induction xs) auto

lemma nth_concat_uniform:
  "list_all (\<lambda>r. length r = c) xs \<Longrightarrow> k < length xs \<Longrightarrow> e < c \<Longrightarrow>
     concat xs ! (k * c + e) = xs ! k ! e"
proof (induction xs arbitrary: k)
  case Nil
  then show ?case by simp
next
  case (Cons x xs)
  show ?case
  proof (cases k)
    case 0
    then show ?thesis using Cons.prems by (simp add: nth_append)
  next
    case (Suc j)
    then have "concat (x # xs) ! (k * c + e) = concat xs ! (j * c + e)"
      using Cons.prems by (simp add: nth_append)
    then show ?thesis using Cons Suc by simp
  qed
qed

lemma row_of_concat:
  assumes "list_all (\<lambda>r. length r = c) xs" and "k < length xs"
  shows "map (\<lambda>e. concat xs ! (k * c + e)) [0..<c] = xs ! k"
proof (rule nth_equalityI)
  show "length (map (\<lambda>e. concat xs ! (k * c + e)) [0..<c]) = length (xs ! k)"
    using assms by (simp add: list_all_length)
next
  fix e assume "e < length (map (\<lambda>e. concat xs ! (k * c + e)) [0..<c])"
  then show "map (\<lambda>e. concat xs ! (k * c + e)) [0..<c] ! e = xs ! k ! e"
    using nth_concat_uniform [OF assms] by simp
qed

lemma flat_index_less: "i < b \<Longrightarrow> j < s \<Longrightarrow> i * s + j < b * (s::nat)"
proof -
  assume a: "i < b" "j < s"
  then have "i * s + j < Suc i * s" by simp
  also have "\<dots> \<le> b * s" using a(1) by (intro mult_le_mono1) simp
  finally show ?thesis .
qed

lemma embedding_rows:
  assumes w: "has_shape2 w r c" and r: "\<forall>i \<in> set ws. i < r"
  shows "embedding w (Axis (map (\<lambda>i. Entry (int i)) ws)) =
     Inr (Axis (map (\<lambda>i. Entry (rows w ! i)) ws))"
  using assms by (auto simp: embedding_def has_shape2_def comp_def)

lemma view3_rows:
  assumes u: "list_all (\<lambda>r. length r = c) xs" and l: "length xs = nat b * nat s"
    and b: "0 \<le> b" and s: "0 \<le> s"
  shows "view3 b s c (Axis (map Entry xs)) =
     Inr (Tensor3 (nat b) (nat s) c
       (map (\<lambda>i. map (\<lambda>j. xs ! (i * nat s + j)) [0..<nat s]) [0..<nat b]))"
proof -
  have e: "entries (Axis (map Entry xs)) = xs"
    by (simp add: comp_def)
  have len: "length (concat xs) = nat b * nat s * c"
    using length_concat_uniform [OF u] l by simp
  have row: "\<And>i j. i < nat b \<Longrightarrow> j < nat s \<Longrightarrow>
      map (\<lambda>k. concat xs ! ((i * nat s + j) * c + k)) [0..<c] = xs ! (i * nat s + j)"
    using row_of_concat [OF u] flat_index_less l by simp
  show ?thesis
    unfolding view3_def e Let_def using b s by (simp add: len row)
qed

lemma noise_words_model: "model (snd (noise_words batch_size n_samples st)) = model st"
  by (simp add: noise_words_def split: prod.splits)

lemma forward_noise_value:
  assumes wf: "wf_model (model st)"
    and ws: "noise_words batch_size n_samples st = (Inr ws, st')"
    and len: "length ws = nat batch_size * nat n_samples"
    and rng: "\<forall>i \<in> set ws. i < n_vocab (model st)"
    and b: "0 \<le> batch_size" and s: "0 \<le> n_samples"
  shows "forward_noise batch_size n_samples st =
    (Inr (Tensor3 (nat batch_size) (nat n_samples) (n_embed (model st))
       (map (\<lambda>i. map (\<lambda>j. rows (out_embed (model st)) ! (ws ! (i * nat n_samples + j)))
          [0..<nat n_samples]) [0..<nat batch_size])), st')"
proof -
  have m: "model st' = model st"
    using noise_words_model [of batch_size n_samples st] ws by simp
  have o: "has_shape2 (out_embed (model st)) (n_vocab (model st)) (n_embed (model st))"
    using wf by (simp add: wf_model_def)
  have emb: "embedding (out_embed (model st)) (Axis (map (\<lambda>i. Entry (int i)) ws)) =
      Inr (Axis (map Entry (map (\<lambda>i. rows (out_embed (model st)) ! i) ws)))"
    using embedding_rows [OF o rng] by (simp add: comp_def)
  have u: "list_all (\<lambda>r. length r = n_embed (model st)) (map (\<lambda>i. rows (out_embed (model st)) ! i) ws)"
    using rng has_shape2_row [OF o] by (simp add: list_all_iff)
  have l: "length (map (\<lambda>i. rows (out_embed (model st)) ! i) ws) = nat batch_size * nat n_samples"
    using len by simp
  have nth: "\<And>i j. i < nat batch_size \<Longrightarrow> j < nat n_samples \<Longrightarrow>
      map (\<lambda>i. rows (out_embed (model st)) ! i) ws ! (i * nat n_samples + j) =
      rows (out_embed (model st)) ! (ws ! (i * nat n_samples + j))"
    using flat_index_less len by simp
  have v: "view3 batch_size n_samples (n_embed (model st))
        (Axis (map Entry (map (\<lambda>i. rows (out_embed (model st)) ! i) ws))) =
      Inr (Tensor3 (nat batch_size) (nat n_samples) (n_embed (model st))
        (map (\<lambda>i. map (\<lambda>j. rows (out_embed (model st)) ! (ws ! (i * nat n_samples + j)))
          [0..<nat n_samples]) [0..<nat batch_size]))"
    unfolding view3_rows [OF u l b s] by (simp add: nth)
  show ?thesis
    by (simp only: forward_noise_def ws prod.case sum.case m emb v)
qed

lemma loss_error: "loss iv ov nv = Inl e \<Longrightarrow> e = ShapeMismatch"
  by (auto simp: loss_def pos_scores_def neg_scores_def torch_mul2_def torch_bmm_def torch_add1_def
      split: sum.splits option.splits if_splits prod.splits)

lemma tensor_all_rows:
  "has_shape2 w r c \<Longrightarrow> \<forall>i \<in> set_tensor idx. 0 \<le> i \<and> i < int r \<Longrightarrow>
     \<forall>x \<in> set_tensor (map_tensor (\<lambda>i. rows w ! nat i) idx). length x = c"
  by (auto simp: tensor.set_map has_shape2_def list_all_length)

lemma example_program_wf: "wf_model (model example_program)"
  by (simp add: example_program_def example_model_def wf_model_def has_shape2_def)

subsection \<open>The embedding lookups\<close>

text \<open>
  Claim C5: on a model whose tables have shape (n_vocab, n_embed), for every tensor of
  word indices that all lie in [0, n_vocab), \<^verbatim>\<open>forward_input\<close> returns the tensor of the
  rows of \<open>in_embed\<close> the indices name and \<^verbatim>\<open>forward_output\<close> the tensor of the rows of
  \<open>out_embed\<close>; the result has the shape of the index tensor, and every row has
  \<open>n_embed\<close> entries.
\<close>

theorem forward_lookup:
  assumes "wf_model (model st)"
    and "\<forall>i \<in> set_tensor words. 0 \<le> i \<and> i < int (n_vocab (model st))"
  shows "fst (forward_input words st) = Inr (map_tensor (\<lambda>i. rows (in_embed (model st)) ! nat i) words) \<and>
         fst (forward_output words st) = Inr (map_tensor (\<lambda>i. rows (out_embed (model st)) ! nat i) words) \<and>
         (\<forall>x \<in> set_tensor (map_tensor (\<lambda>i. rows (in_embed (model st)) ! nat i) words).
            length x = n_embed (model st)) \<and>
         (\<forall>x \<in> set_tensor (map_tensor (\<lambda>i. rows (out_embed (model st)) ! nat i) words).
            length x = n_embed (model st))"
proof -
  have i: "has_shape2 (in_embed (model st)) (n_vocab (model st)) (n_embed (model st))"
    and o: "has_shape2 (out_embed (model st)) (n_vocab (model st)) (n_embed (model st))"
    using assms(1) by (simp_all add: wf_model_def)
  have d: "dim0 (in_embed (model st)) = n_vocab (model st)"
      "dim0 (out_embed (model st)) = n_vocab (model st)"
    using i o by (simp_all add: has_shape2_def)
  show ?thesis
    using assms(2) tensor_all_rows [OF i assms(2)] tensor_all_rows [OF o assms(2)]
    by (simp add: forward_input_def forward_output_def embedding_def d)
qed

theorem forward_lookup_witness:
  "fst (forward_input (Axis [Axis [Entry 2, Entry 0]]) example_program) =
     Inr (Axis [Axis [Entry [5, 6], Entry [1, 2]]]) \<and>
   fst (forward_output (Axis [Axis [Entry 2, Entry 0]]) example_program) =
     Inr (Axis [Axis [Entry [1, 1], Entry [1, 0]]])"
  using forward_lookup [of example_program "Axis [Axis [Entry 2, Entry 0]]"]
  by (simp add: example_program_def example_model_def wf_model_def has_shape2_def)

subsection \<open>The model is only read\<close>

text \<open>
  Claim C7: none of \<^verbatim>\<open>forward_input\<close>, \<^verbatim>\<open>forward_output\<close>, \<^verbatim>\<open>forward_noise\<close> and
  \<^verbatim>\<open>NegativeSamplingLoss.forward\<close> changes the model: \<open>n_vocab\<close>, \<open>n_embed\<close>,
  \<open>noise_dist\<close> and both weight tables are after the call what they were before it.
\<close>

theorem model_unchanged:
  "model (snd (forward_input words st)) = model st \<and>
   model (snd (forward_output words st)) = model st \<and>
   model (snd (forward_noise batch_size n_samples st)) = model st \<and>
   model (snd (forward iv ov nv st)) = model st"
  by (simp add: forward_input_def forward_output_def forward_noise_def noise_words_def forward_def
      split: prod.splits sum.splits)

theorem model_unchanged_witness:
  "model (snd (forward_noise 1 1 example_program)) = example_model \<and>
   noise_dist (model (snd (forward_noise 1 1 example_program))) = None"
  using model_unchanged [of "Entry 0" example_program 1 1]
  by (simp add: example_program_def example_model_def)

subsection \<open>The sampling call and what becomes of its indices\<close>

lemma torch_multinomial_outcome:
  "fst (torch_multinomial w n g) =
     (if n < - (2 ^ 63) \<or> 2 ^ 63 \<le> n then Inl IntOverflow
      else if n \<le> 0 \<or> \<not> valid_weights w then Inl InvalidSampling
      else (case g 0 of Exhausted \<Rightarrow> Inl OutOfMemory | Selects f \<Rightarrow> Inr (map f [0..<nat n])))"
  by (simp add: torch_multinomial_def)

lemma torch_multinomial_Inr:
  assumes "fst (torch_multinomial w n g) = Inr ws"
  shows "0 < n \<and> length ws = nat n"
  using assms by (auto simp: torch_multinomial_outcome split: if_splits outcome.splits)

lemma torch_multinomial_selects:
  "valid_weights w \<Longrightarrow> 0 < n \<Longrightarrow> n < 2 ^ 63 \<Longrightarrow> g 0 = Selects f \<Longrightarrow>
     fst (torch_multinomial w n g) = Inr (map f [0..<nat n])"
  by (simp add: torch_multinomial_outcome)

lemma noise_words_fst:
  "fst (noise_words batch_size n_samples st) =
     fst (torch_multinomial (sampling_weights (model st)) (batch_size * n_samples) (generator st))"
  by (simp add: noise_words_def split: prod.splits)

lemma forward_noise_Inl:
  "fst (noise_words batch_size n_samples st) = Inl e \<Longrightarrow>
     fst (forward_noise batch_size n_samples st) = Inl e"
  by (cases "noise_words batch_size n_samples st") (simp add: forward_noise_def)

lemma gathered_rows:
  "Tensor3 b s (n_embed m) (map (\<lambda>i. map (\<lambda>j. rows (out_embed m) ! (ws ! (i * s + j))) [0..<s]) [0..<b]) =
     gathered (out_embed m) b s ws" if "wf_model m"
  using that by (simp add: gathered_def wf_model_def has_shape2_def)

lemma forward_noise_Inr:
  assumes wf: "wf_model (model st)"
    and nw: "fst (noise_words batch_size n_samples st) = Inr ws"
  shows "fst (forward_noise batch_size n_samples st) =
     (if \<exists>i \<in> set ws. n_vocab (model st) \<le> i then Inl IndexOutOfRange
      else if batch_size < 0 then Inl ShapeMismatch
      else Inr (gathered (out_embed (model st)) (nat batch_size) (nat n_samples) ws))"
proof -
  obtain st' where p: "noise_words batch_size n_samples st = (Inr ws, st')"
    using nw by (cases "noise_words batch_size n_samples st") simp
  have m: "model st' = model st"
    using noise_words_model [of batch_size n_samples st] p by simp
  have n: "0 < batch_size * n_samples" and l: "length ws = nat (batch_size * n_samples)"
    using torch_multinomial_Inr [of "sampling_weights (model st)" "batch_size * n_samples"
        "generator st" ws] nw by (simp_all add: noise_words_fst)
  have d: "dim0 (out_embed (model st)) = n_vocab (model st)"
    using wf by (simp add: wf_model_def has_shape2_def)
  show ?thesis
  proof (cases "\<exists>i \<in> set ws. n_vocab (model st) \<le> i")
    case True
    then have "embedding (out_embed (model st)) (Axis (map (\<lambda>i. Entry (int i)) ws)) =
        Inl IndexOutOfRange"
      by (force simp: embedding_def d not_less)
    then show ?thesis using True by (simp add: forward_noise_def p m)
  next
    case False
    then have r: "\<forall>i \<in> set ws. i < n_vocab (model st)" by auto
    have o: "has_shape2 (out_embed (model st)) (n_vocab (model st)) (n_embed (model st))"
      using wf by (simp add: wf_model_def)
    show ?thesis
    proof (cases "batch_size < 0")
      case True
      have "embedding (out_embed (model st)) (Axis (map (\<lambda>i. Entry (int i)) ws)) =
          Inr (Axis (map (\<lambda>i. Entry (rows (out_embed (model st)) ! i)) ws))"
        by (rule embedding_rows [OF o r])
      then show ?thesis using True False by (simp add: forward_noise_def p m view3_def)
    next
      case nb: False
      then have b: "0 \<le> batch_size" by simp
      have s: "0 \<le> n_samples"
        using n b by (simp add: zero_less_mult_iff)
      have len: "length ws = nat batch_size * nat n_samples"
        using l b s by (simp add: nat_mult_distrib)
      show ?thesis
        using False nb gathered_rows [OF wf]
        by (simp add: forward_noise_value [OF wf p len r b s])
    qed
  qed
qed

lemma forward_noise_outcome:
  assumes wf: "wf_model (model st)"
  shows "fst (forward_noise batch_size n_samples st) =
     (case fst (torch_multinomial (sampling_weights (model st)) (batch_size * n_samples)
                 (generator st)) of
        Inl e \<Rightarrow> Inl e
      | Inr ws \<Rightarrow>
          if \<exists>i \<in> set ws. n_vocab (model st) \<le> i then Inl IndexOutOfRange
          else if batch_size < 0 then Inl ShapeMismatch
          else Inr (gathered (out_embed (model st)) (nat batch_size) (nat n_samples) ws))"
proof (cases "fst (noise_words batch_size n_samples st)")
  case (Inl e)
  then show ?thesis using forward_noise_Inl [OF Inl] by (simp add: noise_words_fst)
next
  case (Inr ws)
  then show ?thesis using forward_noise_Inr [OF wf Inr] by (simp add: noise_words_fst)
qed

lemma gathered_slice:
  "i < b \<Longrightarrow> j < s \<Longrightarrow> mats (gathered w b s ws) ! i ! j = rows w ! (ws ! (i * s + j))"
  by (simp add: gathered_def)

lemma gathered_shape:
  assumes "has_shape2 w r c" and "length ws = b * s" and "\<forall>i \<in> set ws. i < r"
  shows "has_shape3 (gathered w b s ws) b s c"
proof -
  have "\<And>i j. i < b \<Longrightarrow> j < s \<Longrightarrow> ws ! (i * s + j) < r"
    using assms(2,3) flat_index_less by (metis nth_mem)
  then show ?thesis
    using assms(1) has_shape2_row [OF assms(1)]
    by (simp add: gathered_def has_shape3_def has_shape2_def list_all_length)
qed

lemma nat_mult_pos: "1 \<le> b \<Longrightarrow> 1 \<le> s \<Longrightarrow> nat (b * s) = nat b * nat s \<and> 0 < b * s"
  by (simp add: nat_mult_distrib)

lemma forward_noise_selects:
  assumes wf: "wf_model (model st)" and b: "1 \<le> batch_size" and s: "1 \<le> n_samples"
    and n: "batch_size * n_samples < 2 ^ 63"
    and v: "valid_weights (sampling_weights (model st))"
    and g: "generator st 0 = Selects f"
  shows "fst (noise_words batch_size n_samples st) = Inr (map f [0..<nat batch_size * nat n_samples])"
    and "fst (forward_noise batch_size n_samples st) =
      (if \<forall>k < nat batch_size * nat n_samples. f k < n_vocab (model st)
       then Inr (gathered (out_embed (model st)) (nat batch_size) (nat n_samples)
                  (map f [0..<nat batch_size * nat n_samples]))
       else Inl IndexOutOfRange)"
proof -
  have p: "nat (batch_size * n_samples) = nat batch_size * nat n_samples"
      "0 < batch_size * n_samples"
    using nat_mult_pos [OF b s] by simp_all
  show nw: "fst (noise_words batch_size n_samples st) =
      Inr (map f [0..<nat batch_size * nat n_samples])"
    using torch_multinomial_selects [of "sampling_weights (model st)" "batch_size * n_samples"
        "generator st" f] v p(2) n g
    by (simp add: noise_words_fst p(1))
  have e: "(\<exists>i \<in> set (map f [0..<nat batch_size * nat n_samples]). n_vocab (model st) \<le> i) =
      (\<not> (\<forall>k < nat batch_size * nat n_samples. f k < n_vocab (model st)))"
    by (auto simp: not_less)
  show "fst (forward_noise batch_size n_samples st) =
      (if \<forall>k < nat batch_size * nat n_samples. f k < n_vocab (model st)
       then Inr (gathered (out_embed (model st)) (nat batch_size) (nat n_samples)
                  (map f [0..<nat batch_size * nat n_samples]))
       else Inl IndexOutOfRange)"
    unfolding forward_noise_Inr [OF wf nw] e using b by simp
qed

lemma example_programs_wf:
  "wf_model (model weighted_program)" "wf_model (model weightless_program)"
  "wf_model (model long_program)"
  by (simp_all add: weighted_program_def weightless_program_def long_program_def
      example_program_def example_model_def wf_model_def has_shape2_def)

lemma example_weights:
  "sampling_weights (model example_program) = [1, 1, 1]"
  "sampling_weights (model weighted_program) = [1, 2, 1]"
  "sampling_weights (model weightless_program) = [0, 0, 0]"
  "sampling_weights (model long_program) = [0, 0, 0, 1]"
  by (simp_all add: weighted_program_def weightless_program_def long_program_def
      example_program_def example_model_def sampling_weights_def torch_ones_def
      eval_nat_numeral)

lemma example_valid_weights:
  "valid_weights [1, 1, 1]" "valid_weights [1, 2, 1]" "\<not> valid_weights [0, 0, 0]"
  "valid_weights [0, 0, 0, 1]"
  by (simp_all add: valid_weights_def)

lemma example_generators:
  "generator example_program 0 = Selects (\<lambda>k. if k = 0 then 1 else 0)"
  "generator weighted_program 0 = Selects (\<lambda>k. if k = 0 then 1 else 0)"
  "generator long_program 0 = Selects (\<lambda>k. 3)"
  by (simp_all add: weighted_program_def long_program_def example_program_def)

lemma example_tables:
  "n_vocab (model example_program) = 3" "n_embed (model example_program) = 2"
  "out_embed (model example_program) = Tensor2 3 2 [[1, 0], [0, 1], [1, 1]]"
  "n_vocab (model weighted_program) = 3" "n_embed (model weighted_program) = 2"
  "out_embed (model weighted_program) = Tensor2 3 2 [[1, 0], [0, 1], [1, 1]]"
  "n_vocab (model long_program) = 3"
  by (simp_all add: weighted_program_def long_program_def example_program_def example_model_def)

lemma upt_small: "[0..<1] = [0]" "[0..<2] = [0, 1]" "[0..<4] = [0, 1, 2, 3]"
  by (simp_all add: eval_nat_numeral upt_rec)

lemma loss_outcome:
  "loss iv ov nv = Inl e \<longleftrightarrow>
     e = ShapeMismatch \<and>
     (broadcast_dim (dim0 iv) (dim0 ov) = None \<or> broadcast_dim (dim1 iv) (dim1 ov) = None \<or>
      size0 nv \<noteq> dim0 iv \<or> size2 nv \<noteq> dim1 iv)"
  by (auto simp: loss_def pos_scores_def neg_scores_def torch_mul2_def torch_bmm_def torch_add1_def
      unsqueeze2_def squeeze2_def pos_loss_map neg_loss_map torch_sum_dim1_def broadcast_dim_def
      split: sum.splits option.splits if_splits prod.splits)

lemma loss_provenance:
  "loss iv ov nv = Inl e \<Longrightarrow> torch_mul2 iv ov = Inl e \<or> torch_bmm nv (unsqueeze2 iv) = Inl e"
  by (auto simp: loss_def pos_scores_def neg_scores_def torch_mul2_def torch_bmm_def torch_add1_def
      unsqueeze2_def squeeze2_def pos_loss_map neg_loss_map torch_sum_dim1_def broadcast_dim_def
      split: sum.splits option.splits if_splits prod.splits)

lemma forward_noise_provenance:
  assumes "fst (forward_noise batch_size n_samples st) = Inl e"
  shows "fst (torch_multinomial (sampling_weights (model st)) (batch_size * n_samples)
               (generator st)) = Inl e \<or>
     (\<exists>ws. fst (torch_multinomial (sampling_weights (model st)) (batch_size * n_samples)
                  (generator st)) = Inr ws \<and>
        (embedding (out_embed (model st)) (Axis (map (\<lambda>i. Entry (int i)) ws)) = Inl e \<or>
         (\<exists>v. embedding (out_embed (model st)) (Axis (map (\<lambda>i. Entry (int i)) ws)) = Inr v \<and>
            view3 batch_size n_samples (n_embed (model st)) v = Inl e)))"
proof (cases "noise_words batch_size n_samples st")
  case (Pair r st')
  have m: "model st' = model st"
    using noise_words_model [of batch_size n_samples st] Pair by simp
  have f: "fst (torch_multinomial (sampling_weights (model st)) (batch_size * n_samples)
               (generator st)) = r"
    using Pair noise_words_fst [of batch_size n_samples st] by simp
  show ?thesis
    using assms unfolding f
    by (cases r) (auto simp: forward_noise_def Pair m split: sum.splits)
qed

lemma bex_upt: "(\<exists>x \<in> {0..<n::nat}. P x) \<longleftrightarrow> (\<exists>k < n. P k)"
  by auto

lemma example_noise_first:
  "fst (forward_noise 1 1 example_program) = Inr (Tensor3 1 1 2 [[[0, 1]]])"
  by (simp add: forward_noise_outcome [OF example_program_wf] torch_multinomial_outcome
      example_weights example_valid_weights example_generators example_tables upt_small
      gathered_def)

lemma example_noise_zero:
  "fst (forward_noise 1 1 (example_program\<lparr>generator := \<lambda>c. Selects (\<lambda>k. 0)\<rparr>)) =
     Inr (Tensor3 1 1 2 [[[1, 0]]])"
proof -
  have wf: "wf_model (model (example_program\<lparr>generator := \<lambda>c. Selects (\<lambda>k. 0)\<rparr>))"
    by (simp add: example_program_wf)
  show ?thesis
    by (simp add: forward_noise_outcome [OF wf] torch_multinomial_outcome
      example_weights example_valid_weights example_tables upt_small gathered_def)
qed

subsection \<open>Determinism of the loss\<close>

text \<open>
  Claim C10: \<^verbatim>\<open>NegativeSamplingLoss.forward\<close> is deterministic.  Two calls on the same three
  tensors return the same loss whatever the model and the random generator are at each
  call, and the call leaves both as they were; \<^verbatim>\<open>forward_noise\<close> on the contrary returns
  different tensors under two generators.
\<close>

theorem forward_deterministic:
  "fst (forward iv ov nv st) = fst (forward iv ov nv st') \<and> snd (forward iv ov nv st) = st \<and>
   fst (forward_noise 1 1 example_program) \<noteq>
     fst (forward_noise 1 1 (example_program\<lparr>generator := \<lambda>c. Selects (\<lambda>k. 0)\<rparr>))"
  by (simp add: forward_def example_noise_first example_noise_zero)

theorem forward_deterministic_witness:
  "fst (forward (Tensor2 1 1 [[1]]) (Tensor2 1 1 [[2]]) (Tensor3 1 1 1 [[[3]]]) example_program) =
   fst (forward (Tensor2 1 1 [[1]]) (Tensor2 1 1 [[2]]) (Tensor3 1 1 1 [[[3]]]) weighted_program)"
  using forward_deterministic [of "Tensor2 1 1 [[1]]" "Tensor2 1 1 [[2]]" "Tensor3 1 1 1 [[[3]]]"
      example_program weighted_program]
  by simp

subsection \<open>The noise vectors\<close>

text \<open>
  Claim C8, as the specification states it: for every \<open>batch_size \<ge> 1\<close> and
  \<open>n_samples \<ge> 1\<close> the call \<^verbatim>\<open>forward_noise\<close> returns a tensor.  It does not on every
  model that \<^verbatim>\<open>__init__\<close> builds: a noise distribution without weight is refused by the
  sampling call, and one with more entries than the vocabulary has words can draw an
  index that the table does not have.
\<close>

theorem forward_noise_can_fail:
  "wf_model (model weightless_program) \<and>
   fst (forward_noise 1 1 weightless_program) = Inl InvalidSampling \<and>
   wf_model (model long_program) \<and>
   fst (forward_noise 1 2 long_program) = Inl IndexOutOfRange"
  by (simp add: example_programs_wf forward_noise_outcome torch_multinomial_outcome
      example_weights example_valid_weights example_generators example_tables upt_small)

text \<open>
  Claim C8, amended: for every \<open>batch_size \<ge> 1\<close> and \<open>n_samples \<ge> 1\<close>, on a model whose
  tables have shape (n_vocab, n_embed).  When \<open>batch_size * n_samples\<close> does not fit a
  64-bit integer the call fails, and so it does when the sampling weights are not valid or
  the library cannot allocate the indices.  Otherwise the library draws
  \<open>batch_size * n_samples\<close> indices.  If they all lie in [0, n_vocab) the call returns a
  tensor of shape (batch_size, n_samples, n_embed) whose slice \<open>[b][s]\<close> is the row of
  \<open>out_embed\<close> of the drawn index number \<open>b * n_samples + s\<close>, the rows laid out in
  sampling order; if one of them does not, the call fails in the lookup.
\<close>

theorem forward_noise_shape_and_rows:
  assumes wf: "wf_model (model st)" and b: "1 \<le> batch_size" and s: "1 \<le> n_samples"
  shows "(2 ^ 63 \<le> batch_size * n_samples \<longrightarrow>
        fst (forward_noise batch_size n_samples st) = Inl IntOverflow) \<and>
     (batch_size * n_samples < 2 ^ 63 \<and> \<not> valid_weights (sampling_weights (model st)) \<longrightarrow>
        fst (forward_noise batch_size n_samples st) = Inl InvalidSampling) \<and>
     (batch_size * n_samples < 2 ^ 63 \<and> valid_weights (sampling_weights (model st)) \<and>
      generator st 0 = Exhausted \<longrightarrow>
        fst (forward_noise batch_size n_samples st) = Inl OutOfMemory) \<and>
     (\<forall>f. batch_size * n_samples < 2 ^ 63 \<and> valid_weights (sampling_weights (model st)) \<and>
        generator st 0 = Selects f \<longrightarrow>
        fst (noise_words batch_size n_samples st) =
          Inr (map f [0..<nat batch_size * nat n_samples]) \<and>
        (if \<forall>k < nat batch_size * nat n_samples. f k < n_vocab (model st)
         then \<exists>t. fst (forward_noise batch_size n_samples st) = Inr t \<and>
                has_shape3 t (nat batch_size) (nat n_samples) (n_embed (model st)) \<and>
                (\<forall>i < nat batch_size. \<forall>j < nat n_samples.
                   mats t ! i ! j = rows (out_embed (model st)) ! f (i * nat n_samples + j))
         else fst (forward_noise batch_size n_samples st) = Inl IndexOutOfRange))"
proof -
  have p: "nat (batch_size * n_samples) = nat batch_size * nat n_samples"
      "0 < batch_size * n_samples"
    using nat_mult_pos [OF b s] by simp_all
  have 1: "2 ^ 63 \<le> batch_size * n_samples \<longrightarrow>
        fst (forward_noise batch_size n_samples st) = Inl IntOverflow"
    by (simp add: forward_noise_outcome [OF wf] torch_multinomial_outcome)
  have 2: "batch_size * n_samples < 2 ^ 63 \<and> \<not> valid_weights (sampling_weights (model st)) \<longrightarrow>
        fst (forward_noise batch_size n_samples st) = Inl InvalidSampling"
    using p(2) by (simp add: forward_noise_outcome [OF wf] torch_multinomial_outcome)
  have 3: "batch_size * n_samples < 2 ^ 63 \<and> valid_weights (sampling_weights (model st)) \<and>
      generator st 0 = Exhausted \<longrightarrow>
        fst (forward_noise batch_size n_samples st) = Inl OutOfMemory"
    using p(2) by (simp add: forward_noise_outcome [OF wf] torch_multinomial_outcome)
  have 4: "\<forall>f. batch_size * n_samples < 2 ^ 63 \<and> valid_weights (sampling_weights (model st)) \<and>
        generator st 0 = Selects f \<longrightarrow>
        fst (noise_words batch_size n_samples st) =
          Inr (map f [0..<nat batch_size * nat n_samples]) \<and>
        (if \<forall>k < nat batch_size * nat n_samples. f k < n_vocab (model st)
         then \<exists>t. fst (forward_noise batch_size n_samples st) = Inr t \<and>
                has_shape3 t (nat batch_size) (nat n_samples) (n_embed (model st)) \<and>
                (\<forall>i < nat batch_size. \<forall>j < nat n_samples.
                   mats t ! i ! j = rows (out_embed (model st)) ! f (i * nat n_samples + j))
         else fst (forward_noise batch_size n_samples st) = Inl IndexOutOfRange)"
  proof (intro allI impI, elim conjE)
    fix f
    assume n: "batch_size * n_samples < 2 ^ 63"
      and v: "valid_weights (sampling_weights (model st))"
      and g: "generator st 0 = Selects f"
    let ?ws = "map f [0..<nat batch_size * nat n_samples]"
    let ?t = "gathered (out_embed (model st)) (nat batch_size) (nat n_samples) ?ws"
    note sel = forward_noise_selects [OF wf b s n v g]
    have o: "has_shape2 (out_embed (model st)) (n_vocab (model st)) (n_embed (model st))"
      using wf by (simp add: wf_model_def)
    have "\<exists>t. fst (forward_noise batch_size n_samples st) = Inr t \<and>
                has_shape3 t (nat batch_size) (nat n_samples) (n_embed (model st)) \<and>
                (\<forall>i < nat batch_size. \<forall>j < nat n_samples.
                   mats t ! i ! j = rows (out_embed (model st)) ! f (i * nat n_samples + j))"
      if r: "\<forall>k < nat batch_size * nat n_samples. f k < n_vocab (model st)"
    proof (intro exI [of _ ?t] conjI)
      show "fst (forward_noise batch_size n_samples st) = Inr ?t"
        using sel(2) r by simp
      show "has_shape3 ?t (nat batch_size) (nat n_samples) (n_embed (model st))"
        using r by (intro gathered_shape [OF o]) auto
      show "\<forall>i < nat batch_size. \<forall>j < nat n_samples.
          mats ?t ! i ! j = rows (out_embed (model st)) ! f (i * nat n_samples + j)"
        using flat_index_less by (simp add: gathered_slice)
    qed
    then show "fst (noise_words batch_size n_samples st) = Inr ?ws \<and>
        (if \<forall>k < nat batch_size * nat n_samples. f k < n_vocab (model st)
         then \<exists>t. fst (forward_noise batch_size n_samples st) = Inr t \<and>
                has_shape3 t (nat batch_size) (nat n_samples) (n_embed (model st)) \<and>
                (\<forall>i < nat batch_size. \<forall>j < nat n_samples.
                   mats t ! i ! j = rows (out_embed (model st)) ! f (i * nat n_samples + j))
         else fst (forward_noise batch_size n_samples st) = Inl IndexOutOfRange)"
      using sel by simp
  qed
  show ?thesis by (intro conjI 1 2 3 4)
qed

theorem forward_noise_shape_and_rows_witness:
  "fst (noise_words 1 2 example_program) = Inr [1, 0] \<and>
   (\<exists>t. fst (forward_noise 1 2 example_program) = Inr t \<and> has_shape3 t 1 2 2 \<and>
      mats t ! 0 ! 0 = [0, 1] \<and> mats t ! 0 ! 1 = [1, 0])"
proof -
  let ?f = "\<lambda>k::nat. if k = 0 then 1 else (0::nat)"
  have h: "(1::int) * 2 < 2 ^ 63 \<and> valid_weights (sampling_weights (model example_program)) \<and>
      generator example_program 0 = Selects ?f"
    by (simp add: example_weights example_valid_weights example_generators)
  have r: "\<forall>k < nat 1 * nat 2. ?f k < n_vocab (model example_program)"
    by (simp add: example_tables)
  have b: "(1::int) \<le> 1" "(1::int) \<le> 2" by simp_all
  note t = forward_noise_shape_and_rows [OF example_program_wf b]
  from t [THEN conjunct2, THEN conjunct2, THEN conjunct2, rule_format, OF h]
  have nw: "fst (noise_words 1 2 example_program) = Inr (map ?f [0..<nat 1 * nat 2])"
    and "\<exists>t. fst (forward_noise 1 2 example_program) = Inr t \<and>
        has_shape3 t (nat 1) (nat 2) (n_embed (model example_program)) \<and>
        (\<forall>i < nat 1. \<forall>j < nat 2.
           mats t ! i ! j = rows (out_embed (model example_program)) ! ?f (i * nat 2 + j))"
    using r by simp_all
  then obtain t where f: "fst (forward_noise 1 2 example_program) = Inr t"
    and s: "has_shape3 t (nat 1) (nat 2) (n_embed (model example_program))"
    and e: "\<forall>i < nat 1. \<forall>j < nat 2.
           mats t ! i ! j = rows (out_embed (model example_program)) ! ?f (i * nat 2 + j)"
    by blast
  from e [rule_format, of 0 0] e [rule_format, of 0 1]
  have "mats t ! 0 ! 0 = [0, 1]" "mats t ! 0 ! 1 = [1, 0]"
    by (simp_all add: example_tables)
  with f s nw show ?thesis by (simp add: example_tables upt_small)
qed





subsection \<open>Failures\<close>

text \<open>
  Claim C6, as the specification states it: the only failure of an operation is a library
  error for mismatched shapes or out-of-range indices.  It is not: a request for no
  sample makes \<^verbatim>\<open>forward_noise\<close> fail in the sampling call, which is neither.
\<close>

theorem sampling_failure:
  "fst (forward_noise 0 1 example_program) = Inl InvalidSampling \<and>
   InvalidSampling \<noteq> ShapeMismatch \<and> InvalidSampling \<noteq> IndexOutOfRange"
  by (simp add: forward_noise_def noise_words_def torch_multinomial_def)

text \<open>
  Claim C6, amended, on a model whose tables have shape (n_vocab, n_embed).  Every
  failure of an operation is the failure of one of its library calls, handed on as it is:
  the lookup for \<^verbatim>\<open>forward_input\<close> and \<^verbatim>\<open>forward_output\<close>; the product or the batched product
  for the loss; the sampling call, the lookup or the reshaping for \<^verbatim>\<open>forward_noise\<close>.
  The lookups fail exactly when an index is outside [0, n_vocab).  The loss fails exactly
  when the two leading sizes or the two trailing sizes of its first two arguments cannot be
  broadcast, or the noise vectors do not have the batch size and the embedding size of the
  input vectors.  \<^verbatim>\<open>forward_noise\<close> fails exactly when \<open>batch_size * n_samples\<close> does not fit
  a 64-bit integer, or is not positive, or the sampling weights are not valid, or the
  library cannot allocate the indices, or a drawn index is outside [0, n_vocab), or both
  sizes are negative.  In every other case the operation returns a value.
\<close>

theorem failures_come_from_library:
  assumes wf: "wf_model (model st)"
  shows "fst (forward_input words st) = embedding (in_embed (model st)) words \<and>
     fst (forward_input words st) =
       (if \<forall>i \<in> set_tensor words. 0 \<le> i \<and> i < int (n_vocab (model st))
        then Inr (map_tensor (\<lambda>i. rows (in_embed (model st)) ! nat i) words)
        else Inl IndexOutOfRange) \<and>
     fst (forward_output words st) = embedding (out_embed (model st)) words \<and>
     fst (forward_output words st) =
       (if \<forall>i \<in> set_tensor words. 0 \<le> i \<and> i < int (n_vocab (model st))
        then Inr (map_tensor (\<lambda>i. rows (out_embed (model st)) ! nat i) words)
        else Inl IndexOutOfRange) \<and>
     (\<forall>e. fst (forward iv ov nv st) = Inl e \<longleftrightarrow>
        e = ShapeMismatch \<and>
        (broadcast_dim (dim0 iv) (dim0 ov) = None \<or> broadcast_dim (dim1 iv) (dim1 ov) = None \<or>
         size0 nv \<noteq> dim0 iv \<or> size2 nv \<noteq> dim1 iv)) \<and>
     (\<forall>e. fst (forward iv ov nv st) = Inl e \<longrightarrow>
        torch_mul2 iv ov = Inl e \<or> torch_bmm nv (unsqueeze2 iv) = Inl e) \<and>
     fst (forward_noise batch_size n_samples st) =
       (if batch_size * n_samples < - (2 ^ 63) \<or> 2 ^ 63 \<le> batch_size * n_samples
        then Inl IntOverflow
        else if batch_size * n_samples \<le> 0 \<or> \<not> valid_weights (sampling_weights (model st))
        then Inl InvalidSampling
        else (case generator st 0 of
                Exhausted \<Rightarrow> Inl OutOfMemory
              | Selects f \<Rightarrow>
                  if \<exists>k < nat (batch_size * n_samples). n_vocab (model st) \<le> f k
                  then Inl IndexOutOfRange
                  else if batch_size < 0 then Inl ShapeMismatch
                  else Inr (gathered (out_embed (model st)) (nat batch_size) (nat n_samples)
                             (map f [0..<nat (batch_size * n_samples)])))) \<and>
     (\<forall>e. fst (forward_noise batch_size n_samples st) = Inl e \<longrightarrow>
        fst (torch_multinomial (sampling_weights (model st)) (batch_size * n_samples)
              (generator st)) = Inl e \<or>
        (\<exists>ws. fst (torch_multinomial (sampling_weights (model st)) (batch_size * n_samples)
                     (generator st)) = Inr ws \<and>
           (embedding (out_embed (model st)) (Axis (map (\<lambda>i. Entry (int i)) ws)) = Inl e \<or>
            (\<exists>v. embedding (out_embed (model st)) (Axis (map (\<lambda>i. Entry (int i)) ws)) = Inr v \<and>
               view3 batch_size n_samples (n_embed (model st)) v = Inl e))))"
proof -
  have d: "dim0 (in_embed (model st)) = n_vocab (model st)"
      "dim0 (out_embed (model st)) = n_vocab (model st)"
    using wf by (simp_all add: wf_model_def has_shape2_def)
  have 1: "fst (forward_input words st) = embedding (in_embed (model st)) words"
    by (simp add: forward_input_def)
  have 2: "fst (forward_input words st) =
       (if \<forall>i \<in> set_tensor words. 0 \<le> i \<and> i < int (n_vocab (model st))
        then Inr (map_tensor (\<lambda>i. rows (in_embed (model st)) ! nat i) words)
        else Inl IndexOutOfRange)"
    by (simp add: forward_input_def embedding_def d)
  have 3: "fst (forward_output words st) = embedding (out_embed (model st)) words"
    by (simp add: forward_output_def)
  have 4: "fst (forward_output words st) =
       (if \<forall>i \<in> set_tensor words. 0 \<le> i \<and> i < int (n_vocab (model st))
        then Inr (map_tensor (\<lambda>i. rows (out_embed (model st)) ! nat i) words)
        else Inl IndexOutOfRange)"
    by (simp add: forward_output_def embedding_def d)
  have 5: "\<forall>e. fst (forward iv ov nv st) = Inl e \<longleftrightarrow>
        e = ShapeMismatch \<and>
        (broadcast_dim (dim0 iv) (dim0 ov) = None \<or> broadcast_dim (dim1 iv) (dim1 ov) = None \<or>
         size0 nv \<noteq> dim0 iv \<or> size2 nv \<noteq> dim1 iv)"
    by (simp add: forward_def loss_outcome)
  have 6: "\<forall>e. fst (forward iv ov nv st) = Inl e \<longrightarrow>
        torch_mul2 iv ov = Inl e \<or> torch_bmm nv (unsqueeze2 iv) = Inl e"
    by (simp add: forward_def loss_provenance)
  have 7: "fst (forward_noise batch_size n_samples st) =
       (if batch_size * n_samples < - (2 ^ 63) \<or> 2 ^ 63 \<le> batch_size * n_samples
        then Inl IntOverflow
        else if batch_size * n_samples \<le> 0 \<or> \<not> valid_weights (sampling_weights (model st))
        then Inl InvalidSampling
        else (case generator st 0 of
                Exhausted \<Rightarrow> Inl OutOfMemory
              | Selects f \<Rightarrow>
                  if \<exists>k < nat (batch_size * n_samples). n_vocab (model st) \<le> f k
                  then Inl IndexOutOfRange
                  else if batch_size < 0 then Inl ShapeMismatch
                  else Inr (gathered (out_embed (model st)) (nat batch_size) (nat n_samples)
                             (map f [0..<nat (batch_size * n_samples)]))))"
    unfolding forward_noise_outcome [OF wf] torch_multinomial_outcome
    by (simp add: bex_upt split: outcome.splits)
  have 8: "\<forall>e. fst (forward_noise batch_size n_samples st) = Inl e \<longrightarrow>
        fst (torch_multinomial (sampling_weights (model st)) (batch_size * n_samples)
              (generator st)) = Inl e \<or>
        (\<exists>ws. fst (torch_multinomial (sampling_weights (model st)) (batch_size * n_samples)
                     (generator st)) = Inr ws \<and>
           (embedding (out_embed (model st)) (Axis (map (\<lambda>i. Entry (int i)) ws)) = Inl e \<or>
            (\<exists>v. embedding (out_embed (model st)) (Axis (map (\<lambda>i. Entry (int i)) ws)) = Inr v \<and>
               view3 batch_size n_samples (n_embed (model st)) v = Inl e)))"
    using forward_noise_provenance by blast
  show ?thesis by (intro conjI 1 2 3 4 5 6 7 8)
qed

theorem failures_come_from_library_witness:
  "fst (forward_input (Axis [Entry 1, Entry 3]) example_program) = Inl IndexOutOfRange \<and>
   fst (forward_output (Axis [Entry (- 1)]) example_program) = Inl IndexOutOfRange \<and>
   fst (forward (Tensor2 2 2 [[1, 2], [3, 4]]) (Tensor2 3 2 [[1, 0], [0, 1], [1, 1]])
         (Tensor3 2 1 2 [[[1, 1]], [[0, 1]]]) example_program) = Inl ShapeMismatch \<and>
   fst (forward_noise (2 ^ 63) 1 example_program) = Inl IntOverflow \<and>
   fst (forward_noise 1 0 example_program) = Inl InvalidSampling \<and>
   fst (forward_noise (- 1) (- 1) example_program) = Inl ShapeMismatch \<and>
   fst (forward_noise 1 2 long_program) = Inl IndexOutOfRange"
proof -
  note a = failures_come_from_library [OF example_program_wf]
  note l = failures_come_from_library [OF example_programs_wf(3)]
  have 1: "fst (forward_input (Axis [Entry 1, Entry 3]) example_program) = Inl IndexOutOfRange"
    using a [of "Axis [Entry 1, Entry 3]", THEN conjunct2, THEN conjunct1]
    by (simp add: example_tables)
  have 2: "fst (forward_output (Axis [Entry (- 1)]) example_program) = Inl IndexOutOfRange"
    using a [of "Axis [Entry (- 1)]", THEN conjunct2, THEN conjunct2, THEN conjunct2,
        THEN conjunct1]
    by (simp add: example_tables)
  have 3: "fst (forward (Tensor2 2 2 [[1, 2], [3, 4]]) (Tensor2 3 2 [[1, 0], [0, 1], [1, 1]])
         (Tensor3 2 1 2 [[[1, 1]], [[0, 1]]]) example_program) = Inl ShapeMismatch"
    using a [of _ "Tensor2 2 2 [[1, 2], [3, 4]]" "Tensor2 3 2 [[1, 0], [0, 1], [1, 1]]"
        "Tensor3 2 1 2 [[[1, 1]], [[0, 1]]]", THEN conjunct2, THEN conjunct2, THEN conjunct2,
        THEN conjunct2, THEN conjunct1]
    by (simp add: broadcast_dim_def)
  note n = a [THEN conjunct2, THEN conjunct2, THEN conjunct2, THEN conjunct2, THEN conjunct2,
      THEN conjunct2, THEN conjunct1]
  have 4: "fst (forward_noise (2 ^ 63) 1 example_program) = Inl IntOverflow"
    using n [of "2 ^ 63" 1] by simp
  have 5: "fst (forward_noise 1 0 example_program) = Inl InvalidSampling"
    using n [of 1 0] by simp
  have 6: "fst (forward_noise (- 1) (- 1) example_program) = Inl ShapeMismatch"
    using n [of "- 1" "- 1"]
    by (simp add: example_weights example_valid_weights example_generators example_tables)
  have 7: "fst (forward_noise 1 2 long_program) = Inl IndexOutOfRange"
    using l [THEN conjunct2, THEN conjunct2, THEN conjunct2, THEN conjunct2, THEN conjunct2,
      THEN conjunct2, THEN conjunct1, of 1 2]
    by (auto simp: example_weights example_valid_weights example_generators example_tables
        intro: exI [of _ 0])
  show ?thesis by (intro conjI 1 2 3 4 5 6 7)
qed

subsection \<open>The log-sigmoid term\<close>

lemma ln_ten_bound: "ln (10::real) < 12 / 5"
proof -
  have "1 + (3 / 5) + (3 / 5)\<^sup>2 / 2 \<le> exp (3 / 5 :: real)"
    by (rule exp_lower_Taylor_quadratic) simp
  then have a: "(89 / 50 :: real) \<le> exp (3 / 5)" by (simp add: power2_eq_square)
  have "(10::real) < (89 / 50) ^ 4" by (simp add: power4_eq_xxxx)
  also have "\<dots> \<le> exp (3 / 5) ^ 4" using a by (intro power_mono) simp_all
  also have "\<dots> = exp (12 / 5 :: real)"
    using exp_of_nat_mult [of 4 "3 / 5 :: real"] by simp
  finally have "ln (10::real) < ln (exp (12 / 5))" by (simp del: ln_exp)
  then show ?thesis by simp
qed

lemma ln_eps_bound: "- 24 < ln eps"
proof -
  have "ln ((10::real) ^ 10) = 10 * ln 10"
    using ln_realpow [of "10::real" 10] by simp
  then have "ln eps = - (10 * ln (10::real))"
    unfolding eps_def by (simp only: ln_div zero_less_one zero_less_power zero_less_numeral ln_one)
      simp
  then show ?thesis using ln_ten_bound by simp
qed

lemma log_sigmoid_below: "ln (sigmoid x) < x"
proof -
  have "exp (- x) < 1 + exp (- x)" by simp
  then have "ln (exp (- x)) < ln (1 + exp (- x))"
    by (simp del: ln_exp add: add_pos_pos)
  then have "- x < ln (1 + exp (- x))" by simp
  moreover have "ln (sigmoid x) = - ln (1 + exp (- x))"
    by (simp add: sigmoid_def ln_div add_pos_pos)
  ultimately show ?thesis by simp
qed

lemma log_sigmoid_eps_floor: "- 24 < ln (sigmoid x + eps)"
proof -
  have "ln eps < ln (sigmoid x + eps)"
    using sigmoid_pos [of x] eps_pos by (simp add: add_pos_pos)
  then show ?thesis using ln_eps_bound by simp
qed

text \<open>
  Claim C2, as the specification states it: the term that a score \<open>x\<close> contributes to the
  loss equals \<open>log (sigmoid x)\<close> exactly.  It does not: at the score -100 the term is
  above -24, and \<open>log (sigmoid (-100))\<close> is below -100.
\<close>

theorem log_sigmoid_not_exact:
  "pos_loss [- 100] \<noteq> [ln (sigmoid (- 100))] \<and>
   ln (sigmoid (- 100)) < - 100 \<and> - 24 < ln (sigmoid (- 100) + eps)"
proof -
  have a: "ln (sigmoid (- 100)) < - 100" by (rule log_sigmoid_below)
  have b: "- 24 < ln (sigmoid (- 100) + eps)" by (rule log_sigmoid_eps_floor)
  from a b have "ln (sigmoid (- 100) + eps) \<noteq> ln (sigmoid (- 100))" by simp
  then show ?thesis using a b by (simp add: pos_loss_map)
qed

text \<open>
  Claim C2, amended: the term contributed by a score \<open>x\<close> is \<open>log (sigmoid x + 1e-10)\<close>
  (with \<open>- x\<close> for \<open>x\<close> on the noise side).  It is never below \<open>log (sigmoid x)\<close> and
  never below -24, whereas \<open>log (sigmoid x)\<close> is below \<open>x\<close>; for a score that is not
  negative it is within \<open>1e-9\<close> of \<open>log (sigmoid x)\<close>.
\<close>

theorem log_sigmoid_eps_value:
  "pos_loss [x] = [ln (sigmoid x + eps)] \<and>
   neg_loss (Tensor2 1 1 [[x]]) = [ln (sigmoid (- x) + eps)] \<and>
   ln (sigmoid x) \<le> ln (sigmoid x + eps) \<and>
   - 24 < ln (sigmoid x + eps) \<and>
   ln (sigmoid x) < x \<and>
   (0 \<le> x \<longrightarrow> ln (sigmoid x + eps) - ln (sigmoid x) < 1 / 10 ^ 9)"
proof -
  have s: "0 < sigmoid x" by (rule sigmoid_pos)
  have le: "ln (sigmoid x) \<le> ln (sigmoid x + eps)"
    using s eps_pos by (simp add: add_pos_pos)
  have near: "ln (sigmoid x + eps) - ln (sigmoid x) < 1 / 10 ^ 9" if "0 \<le> x"
  proof -
    have "0 \<le> eps * (1 + exp (- x))" using eps_pos by (simp add: add_nonneg_nonneg)
    then have "ln (1 + eps * (1 + exp (- x))) \<le> eps * (1 + exp (- x))"
      by (rule ln_add_one_self_le_self)
    moreover have "exp (- x) \<le> 1" using that by simp
    then have "eps * (1 + exp (- x)) \<le> eps * 2"
      using eps_pos by (intro mult_left_mono) simp_all
    moreover have "eps * 2 < 1 / 10 ^ 9" by (simp add: eps_def)
    ultimately show ?thesis using log_sigmoid_eps_gap [of x] by simp
  qed
  show ?thesis
    using le near log_sigmoid_eps_floor [of x] log_sigmoid_below [of x]
    by (simp add: pos_loss_map neg_loss_map)
qed

theorem log_sigmoid_eps_value_witness:
  "pos_loss [3] = [ln (sigmoid 3 + eps)] \<and> ln (sigmoid 3) \<le> ln (sigmoid 3 + eps) \<and>
   ln (sigmoid 3 + eps) - ln (sigmoid 3) < 1 / 10 ^ 9"
  using log_sigmoid_eps_value [of 3] by simp

end
